theory Spec2Isabelle
  imports Main "HOL-Library.Sublist" "HOL-Library.Monad_Syntax"
begin

section \<open>The connection-string codec of \<^verbatim>\<open>helpers.go\<close>\<close>

text \<open>
  Go strings are byte sequences; they are modelled as \<^typ>\<open>string\<close>, one \<^typ>\<open>char\<close> per
  byte. Every failure the Go code could raise (an index out of range on the slice returned by
  \<^verbatim>\<open>strings.Split\<close>) is the value \<open>None\<close>. The process-wide \<^verbatim>\<open>Verbose\<close> flag only
  guards calls of \<^verbatim>\<open>log.Println\<close>, which do not change any returned value, so the logging
  blocks are left out.
\<close>

subsection \<open>The library functions the codec calls\<close>

text \<open>
  \<^verbatim>\<open>strings.TrimSpace\<close> removes leading, then trailing, white space as defined by Unicode
  (the property White_Space, as of Unicode 6.3).
  On the bytes of a string a white-space rune is one of the following UTF-8 encodings
  (U+0009 to U+000D, U+0020, U+0085, U+00A0, U+1680, U+2000 to U+200A, U+2028, U+2029,
  U+202F, U+205F, U+3000); a byte sequence that is not valid UTF-8 decodes to the
  replacement rune, which is not white space.
\<close>

definition whiteSpace :: "string list" where
  "whiteSpace =
    [[CHR 0x09], [CHR 0x0A], [CHR 0x0B], [CHR 0x0C], [CHR 0x0D], [CHR 0x20],
     [CHR 0xC2, CHR 0x85], [CHR 0xC2, CHR 0xA0],
     [CHR 0xE1, CHR 0x9A, CHR 0x80],
     [CHR 0xE2, CHR 0x80, CHR 0x80], [CHR 0xE2, CHR 0x80, CHR 0x81],
     [CHR 0xE2, CHR 0x80, CHR 0x82], [CHR 0xE2, CHR 0x80, CHR 0x83],
     [CHR 0xE2, CHR 0x80, CHR 0x84], [CHR 0xE2, CHR 0x80, CHR 0x85],
     [CHR 0xE2, CHR 0x80, CHR 0x86], [CHR 0xE2, CHR 0x80, CHR 0x87],
     [CHR 0xE2, CHR 0x80, CHR 0x88], [CHR 0xE2, CHR 0x80, CHR 0x89],
     [CHR 0xE2, CHR 0x80, CHR 0x8A],
     [CHR 0xE2, CHR 0x80, CHR 0xA8], [CHR 0xE2, CHR 0x80, CHR 0xA9],
     [CHR 0xE2, CHR 0x80, CHR 0xAF],
     [CHR 0xE2, CHR 0x81, CHR 0x9F],
     [CHR 0xE3, CHR 0x80, CHR 0x80]]"

definition leadingSpace :: "string \<Rightarrow> string option" where
  "leadingSpace s = find (\<lambda>w. prefix w s) whiteSpace"

definition trailingSpace :: "string \<Rightarrow> string option" where
  "trailingSpace s = find (\<lambda>w. suffix w s) whiteSpace"

function TrimLeftSpace :: "string \<Rightarrow> string" where
  "TrimLeftSpace s =
     (case leadingSpace s of
        None \<Rightarrow> s
      | Some w \<Rightarrow> TrimLeftSpace (drop (length w) s))"
  by pat_completeness auto
termination
proof (relation "measure length")
  show "wf (measure length)" by simp
next
  fix s w :: string
  assume "leadingSpace s = Some w"
  then have "w \<in> set whiteSpace" and "prefix w s"
    by (auto simp: leadingSpace_def find_Some_iff)
  then have "0 < length w" and "length w \<le> length s"
    by (auto simp: whiteSpace_def prefix_length_le)
  then show "(drop (length w) s, s) \<in> measure length" by (cases w; cases s) auto
qed

function TrimRightSpace :: "string \<Rightarrow> string" where
  "TrimRightSpace s =
     (case trailingSpace s of
        None \<Rightarrow> s
      | Some w \<Rightarrow> TrimRightSpace (take (length s - length w) s))"
  by pat_completeness auto
termination
proof (relation "measure length")
  show "wf (measure length)" by simp
next
  fix s w :: string
  assume "trailingSpace s = Some w"
  then have "w \<in> set whiteSpace" and "suffix w s"
    by (auto simp: trailingSpace_def find_Some_iff)
  then have "0 < length w" and "length w \<le> length s"
    by (auto simp: whiteSpace_def suffix_length_le)
  then show "(take (length s - length w) s, s) \<in> measure length" by (cases w; cases s) auto
qed

declare TrimLeftSpace.simps [simp del] TrimRightSpace.simps [simp del]

definition TrimSpace :: "string \<Rightarrow> string" where
  "TrimSpace s = TrimRightSpace (TrimLeftSpace s)"

text \<open>
  \<^verbatim>\<open>strings.TrimRight(s, cutset)\<close>, \<^verbatim>\<open>strings.Count\<close>, \<^verbatim>\<open>strings.Split\<close> and
  \<^verbatim>\<open>strings.Contains\<close> are only ever called with a one-byte literal
  (\<^verbatim>\<open>"@"\<close>, \<^verbatim>\<open>"/"\<close>, \<^verbatim>\<open>":"\<close>, \<^verbatim>\<open>"?"\<close>, \<^verbatim>\<open>"="\<close>), so the delimiter is a \<^typ>\<open>char\<close>;
  \<^verbatim>\<open>strings.Contains(s, "@")\<close> is \<open>CHR ''@'' \<in> set s\<close>.
\<close>

definition TrimRight :: "string \<Rightarrow> char \<Rightarrow> string" where
  "TrimRight s cutset = rev (dropWhile (\<lambda>c. c = cutset) (rev s))"

definition Count :: "string \<Rightarrow> char \<Rightarrow> nat" where
  "Count s delim = count_list s delim"

function Split :: "string \<Rightarrow> char \<Rightarrow> string list" where
  "Split s delim =
     (if delim \<in> set s
      then takeWhile (\<lambda>c. c \<noteq> delim) s # Split (tl (dropWhile (\<lambda>c. c \<noteq> delim) s)) delim
      else [s])"
  by pat_completeness auto
termination
proof (relation "measure (\<lambda>(s, delim). length s)")
  show "wf (measure (\<lambda>(s, delim). length s))" by simp
next
  fix s :: string and delim :: char
  assume "delim \<in> set s"
  then have "dropWhile (\<lambda>c. c \<noteq> delim) s \<noteq> []" by simp
  then have "length (tl (dropWhile (\<lambda>c. c \<noteq> delim) s)) < length (dropWhile (\<lambda>c. c \<noteq> delim) s)"
    by simp
  also have "\<dots> \<le> length s" by (rule length_dropWhile_le)
  finally show "((tl (dropWhile (\<lambda>c. c \<noteq> delim) s), delim), (s, delim))
      \<in> measure (\<lambda>(s, delim). length s)" by simp
qed

declare Split.simps [simp del]

text \<open>Indexing a Go slice panics when the index is out of range.\<close>

definition index :: "'a list \<Rightarrow> nat \<Rightarrow> 'a option" where
  "index xs i = (if i < length xs then Some (xs ! i) else None)"

text \<open>\<^verbatim>\<open>strconv.Itoa\<close>: the decimal digits of an integer, with a minus sign when negative.\<close>

function formatDecimal :: "nat \<Rightarrow> string" where
  "formatDecimal n =
     (if n < 10 then [''0123456789'' ! n]
      else formatDecimal (n div 10) @ [''0123456789'' ! (n mod 10)])"
  by pat_completeness auto
termination
  by (relation "measure id") auto

declare formatDecimal.simps [simp del]

definition Itoa :: "int \<Rightarrow> string" where
  "Itoa i = (if i < 0 then CHR ''-'' # formatDecimal (nat (- i)) else formatDecimal (nat i))"

subsection \<open>Constants\<close>

definition defaultDatabaseName :: string where
  "defaultDatabaseName = ''test''"

definition defaultPort :: int where
  "defaultPort = 3306"

subsection \<open>Helper functions\<close>

definition twoFields :: "string \<Rightarrow> char \<Rightarrow> (string \<times> string \<times> bool) option" where
  "twoFields s delim =
     (if Count s delim \<noteq> 1 then Some (s, [], False)
      else do {
        let fields = Split s delim;
        f0 \<leftarrow> index fields 0;
        f1 \<leftarrow> index fields 1;
        Some (f0, f1, True)
      })"

definition leftOf :: "string \<Rightarrow> char \<Rightarrow> string option" where
  "leftOf s delim = do {
     (left, _, ok) \<leftarrow> twoFields s delim;
     if ok then Some (TrimSpace left) else Some []
   }"

definition rightOf :: "string \<Rightarrow> char \<Rightarrow> string option" where
  "rightOf s delim = do {
     (_, right, ok) \<leftarrow> twoFields s delim;
     if ok then Some (TrimSpace right) else Some []
   }"

subsection \<open>Parsing and building a DSN\<close>

text \<open>
  The seven results of \<^verbatim>\<open>splitConnectionString\<close>, which are also the seven parameters of
  \<^verbatim>\<open>buildConnectionString\<close>, under the names the source gives them.
\<close>

record ParsedConnection =
  username :: string
  password :: string
  hasPassword :: bool
  host :: string
  port :: string
  dbname :: string
  args :: string

definition splitConnectionString :: "string \<Rightarrow> ParsedConnection option" where
  "splitConnectionString connectionString = do {
     userPass \<leftarrow> leftOf connectionString CHR ''@'';
     hostPortDatabase \<leftarrow>
       (if userPass \<noteq> [] then rightOf connectionString CHR ''@''
        else Some (TrimRight connectionString CHR ''@''));
     dbname0 \<leftarrow> rightOf hostPortDatabase CHR ''/'';
     (hostPort0, dbname1) \<leftarrow>
       (if dbname0 \<noteq> [] then do {
          l \<leftarrow> leftOf hostPortDatabase CHR ''/'';
          Some (l, dbname0)
        }
        else Some (TrimRight connectionString CHR ''/'', defaultDatabaseName));
     hostPort \<leftarrow>
       (if CHR ''@'' \<in> set hostPort0 then rightOf hostPort0 CHR ''@'' else Some hostPort0);
     r \<leftarrow> rightOf userPass CHR '':'';
     let password' = TrimSpace r;
     username' \<leftarrow>
       (if password' \<noteq> [] then leftOf userPass CHR '':''
        else Some (TrimRight userPass CHR '':''));
     let hasPassword' = (password' \<noteq> []);
     port0 \<leftarrow> rightOf hostPort CHR '':'';
     (host', port') \<leftarrow>
       (if port0 \<noteq> [] then do {
          l \<leftarrow> leftOf hostPort CHR '':'';
          Some (l, port0)
        }
        else let h = TrimRight hostPort CHR '':''
             in Some (h, if h \<noteq> [] then Itoa defaultPort else port0));
     (dbname', args') \<leftarrow>
       (if CHR ''?'' \<in> set dbname1 \<and> CHR ''='' \<in> set dbname1 then do {
          a \<leftarrow> rightOf dbname1 CHR ''?'';
          if a \<noteq> [] then do {
            l \<leftarrow> leftOf dbname1 CHR ''?'';
            Some (l, a)
          }
          else Some (dbname1, a)
        }
        else Some (dbname1, []));
     Some \<lparr>username = username', password = password', hasPassword = hasPassword',
           host = host', port = port', dbname = dbname', args = args'\<rparr>
   }"

text \<open>
  \<^verbatim>\<open>buildConnectionString\<close> appends to a buffer; \<open>buf0\<close> to \<open>buf5\<close> are the buffer after
  each of its blocks.
\<close>

definition buildConnectionString :: "ParsedConnection \<Rightarrow> string" where
  "buildConnectionString c =
     (let buf0 = (if \<not> prefix ''postgres://'' (username c) then ''postgres://'' else []);
          buf1 = (if username c \<noteq> [] \<and> hasPassword c
                  then buf0 @ (username c @ '':'' @ password c @ ''@'')
                  else if username c \<noteq> [] then buf0 @ (username c @ ''@'')
                  else if hasPassword c then buf0 @ ('':'' @ password c @ ''@'')
                  else buf0);
          buf2 = (if host c \<noteq> [] then buf1 @ host c else buf1);
          buf3 = (if port c \<noteq> [] then buf2 @ ('':'' @ port c) else buf2);
          buf4 = buf3 @ (''/'' @ dbname c);
          buf5 = (if args c \<noteq> [] then buf4 @ (''?'' @ args c)
                  else buf4 @ ''?sslmode=disable'')
      in buf5)"

definition rebuildConnectionString :: "string \<Rightarrow> (string \<times> string) option" where
  "rebuildConnectionString connectionString = do {
     c \<leftarrow> splitConnectionString connectionString;
     Some (buildConnectionString c, dbname c)
   }"

subsection \<open>Predicates used to state the properties\<close>

text \<open>A byte that occurs in no white-space encoding: trimming never removes it.\<close>

definition plainByte :: "char \<Rightarrow> bool" where
  "plainByte c = (\<forall>w\<in>set whiteSpace. c \<notin> set w)"

text \<open>
  A well-formed component of a connection string: non-empty, without surrounding white space
  and without any of the delimiters \<^verbatim>\<open>@\<close>, \<^verbatim>\<open>:\<close>, \<^verbatim>\<open>/\<close>, \<^verbatim>\<open>?\<close> of the grammar.
\<close>

definition delimiterFree :: "string \<Rightarrow> bool" where
  "delimiterFree x =
     (CHR ''@'' \<notin> set x \<and> CHR '':'' \<notin> set x \<and> CHR ''/'' \<notin> set x \<and> CHR ''?'' \<notin> set x)"

definition component :: "string \<Rightarrow> bool" where
  "component x = (x \<noteq> [] \<and> TrimSpace x = x \<and> delimiterFree x)"




text \<open>
  The output of \<open>buildConnectionString\<close> by the blocks that write it: what the first block
  (the scheme), the second (the credentials) and the last (the arguments) append.
\<close>

definition schemeSegment :: "ParsedConnection \<Rightarrow> string" where
  "schemeSegment c = (if \<not> prefix ''postgres://'' (username c) then ''postgres://'' else [])"

definition credentialsSegment :: "ParsedConnection \<Rightarrow> string" where
  "credentialsSegment c =
     (if username c \<noteq> [] \<and> hasPassword c then username c @ '':'' @ password c @ ''@''
      else if username c \<noteq> [] then username c @ ''@''
      else if hasPassword c then '':'' @ password c @ ''@''
      else [])"

definition argsSegment :: "ParsedConnection \<Rightarrow> string" where
  "argsSegment c = (if args c \<noteq> [] then ''?'' @ args c else ''?sslmode=disable'')"

section \<open>Properties of the library functions\<close>

lemma whiteSpace_nonempty: "w \<in> set whiteSpace \<Longrightarrow> w \<noteq> []"
  by (auto simp: whiteSpace_def)

lemma leadingSpace_None_iff: "leadingSpace s = None \<longleftrightarrow> (\<forall>w\<in>set whiteSpace. \<not> prefix w s)"
  by (auto simp: leadingSpace_def find_None_iff)

lemma trailingSpace_None_iff: "trailingSpace s = None \<longleftrightarrow> (\<forall>w\<in>set whiteSpace. \<not> suffix w s)"
  by (auto simp: trailingSpace_def find_None_iff)

lemma leadingSpace_Some: "leadingSpace s = Some w \<Longrightarrow> w \<in> set whiteSpace \<and> prefix w s"
  by (auto simp: leadingSpace_def find_Some_iff)

lemma trailingSpace_Some: "trailingSpace s = Some w \<Longrightarrow> w \<in> set whiteSpace \<and> suffix w s"
  by (auto simp: trailingSpace_def find_Some_iff)

lemma TrimLeftSpace_id: "leadingSpace s = None \<Longrightarrow> TrimLeftSpace s = s"
  by (simp add: TrimLeftSpace.simps)

lemma TrimRightSpace_id: "trailingSpace s = None \<Longrightarrow> TrimRightSpace s = s"
  by (simp add: TrimRightSpace.simps)

lemma TrimSpace_id: "leadingSpace s = None \<Longrightarrow> trailingSpace s = None \<Longrightarrow> TrimSpace s = s"
  by (simp add: TrimSpace_def TrimLeftSpace_id TrimRightSpace_id)

lemma TrimSpace_Nil: "TrimSpace [] = []"
  by (rule TrimSpace_id) (auto simp: leadingSpace_None_iff trailingSpace_None_iff whiteSpace_nonempty)

lemma length_TrimLeftSpace: "length (TrimLeftSpace s) \<le> length s"
proof (induction s rule: TrimLeftSpace.induct)
  case (1 s)
  show ?case
  proof (cases "leadingSpace s")
    case None
    then show ?thesis by (simp add: TrimLeftSpace_id)
  next
    case (Some w)
    with 1 have "length (TrimLeftSpace (drop (length w) s)) \<le> length (drop (length w) s)" by simp
    with Some show ?thesis by (simp add: TrimLeftSpace.simps[of s])
  qed
qed

lemma length_TrimRightSpace: "length (TrimRightSpace s) \<le> length s"
proof (induction s rule: TrimRightSpace.induct)
  case (1 s)
  show ?case
  proof (cases "trailingSpace s")
    case None
    then show ?thesis by (simp add: TrimRightSpace_id)
  next
    case (Some w)
    with 1 have "length (TrimRightSpace (take (length s - length w) s)) \<le> length (take (length s - length w) s)" by simp
    with Some show ?thesis by (simp add: TrimRightSpace.simps[of s])
  qed
qed

lemma TrimLeftSpace_shorter:
  assumes "leadingSpace s = Some w"
  shows "length (TrimLeftSpace s) < length s"
proof -
  from assms have "w \<noteq> []" and "prefix w s"
    using leadingSpace_Some whiteSpace_nonempty by blast+
  then have "length (drop (length w) s) < length s"
    by (cases w; cases s) auto
  moreover have "TrimLeftSpace s = TrimLeftSpace (drop (length w) s)"
    using assms by (simp add: TrimLeftSpace.simps[of s])
  ultimately show ?thesis
    using length_TrimLeftSpace[of "drop (length w) s"] by simp
qed

lemma TrimRightSpace_shorter:
  assumes "trailingSpace s = Some w"
  shows "length (TrimRightSpace s) < length s"
proof -
  from assms have "w \<noteq> []" and "suffix w s"
    using trailingSpace_Some whiteSpace_nonempty by blast+
  then have "length w \<le> length s" "0 < length w" by (auto simp: suffix_length_le)
  then have "length (take (length s - length w) s) < length s"
    by (cases w; cases s) auto
  moreover have "TrimRightSpace s = TrimRightSpace (take (length s - length w) s)"
    using assms by (simp add: TrimRightSpace.simps[of s])
  ultimately show ?thesis
    using length_TrimRightSpace[of "take (length s - length w) s"] by simp
qed

lemma TrimSpace_fixed_iff:
  "TrimSpace s = s \<longleftrightarrow> leadingSpace s = None \<and> trailingSpace s = None"
proof
  assume fixed: "TrimSpace s = s"
  have l: "leadingSpace s = None"
  proof (rule ccontr)
    assume "leadingSpace s \<noteq> None"
    then obtain w where "leadingSpace s = Some w" by auto
    then have "length (TrimLeftSpace s) < length s" by (rule TrimLeftSpace_shorter)
    then have "length (TrimSpace s) < length s"
      using length_TrimRightSpace[of "TrimLeftSpace s"] by (simp add: TrimSpace_def)
    with fixed show False by simp
  qed
  have "trailingSpace s = None"
  proof (rule ccontr)
    assume "trailingSpace s \<noteq> None"
    then obtain w where "trailingSpace s = Some w" by auto
    then have "length (TrimRightSpace s) < length s" by (rule TrimRightSpace_shorter)
    then have "length (TrimSpace s) < length s"
      using l by (simp add: TrimSpace_def TrimLeftSpace_id)
    with fixed show False by simp
  qed
  with l show "leadingSpace s = None \<and> trailingSpace s = None" by simp
next
  assume "leadingSpace s = None \<and> trailingSpace s = None"
  then show "TrimSpace s = s" by (simp add: TrimSpace_id)
qed


lemma leadingSpace_join:
  assumes "leadingSpace x = None" "x \<noteq> []" "plainByte d"
  shows "leadingSpace (x @ d # y) = None"
  unfolding leadingSpace_None_iff
proof (intro ballI notI)
  fix w assume w: "w \<in> set whiteSpace" and p: "prefix w (x @ d # y)"
  from assms(1) w have "\<not> prefix w x" by (simp add: leadingSpace_None_iff)
  with p obtain us where "w = x @ us" "prefix us (d # y)" by (auto simp: prefix_append)
  with \<open>\<not> prefix w x\<close> have "d \<in> set w" by (cases us) auto
  with w assms(3) show False by (simp add: plainByte_def)
qed

lemma trailingSpace_join:
  assumes "trailingSpace y = None" "y \<noteq> []" "plainByte d"
  shows "trailingSpace (x @ d # y) = None"
  unfolding trailingSpace_None_iff
proof (intro ballI notI)
  fix w assume w: "w \<in> set whiteSpace" and p: "suffix w (x @ d # y)"
  from assms(1) w have n: "\<not> suffix w y" by (simp add: trailingSpace_None_iff)
  from p have "suffix w (d # y) \<or> (\<exists>us. w = us @ d # y)"
    by (auto simp: suffix_append)
  with n have "d \<in> set w" by (auto simp: suffix_Cons)
  with w assms(3) show False by (simp add: plainByte_def)
qed

lemma TrimSpace_join:
  assumes "TrimSpace x = x" "x \<noteq> []" "TrimSpace y = y" "y \<noteq> []" "plainByte d"
  shows "TrimSpace (x @ d # y) = x @ d # y"
  using assms by (simp add: TrimSpace_fixed_iff leadingSpace_join trailingSpace_join)

lemma plainByte_delims:
  "plainByte CHR ''@''" "plainByte CHR '':''" "plainByte CHR ''/''" "plainByte CHR ''?''"
  "plainByte CHR ''=''" "plainByte CHR ''p''"
  by (simp_all add: plainByte_def whiteSpace_def)












lemma suffix_TrimLeftSpace: "suffix (TrimLeftSpace x) x"
proof (induction x rule: TrimLeftSpace.induct)
  case (1 s)
  show ?case
  proof (cases "leadingSpace s")
    case None
    then show ?thesis by (simp add: TrimLeftSpace_id)
  next
    case (Some w)
    with 1 have "suffix (TrimLeftSpace (drop (length w) s)) (drop (length w) s)"
      by simp
    moreover have "suffix (drop (length w) s) s" by (rule suffix_drop)
    ultimately show ?thesis using Some by (simp add: TrimLeftSpace.simps[of s])
  qed
qed












section \<open>Properties of the helper functions\<close>

lemma count_list_takeWhile_dropWhile:
  "count_list s d = count_list (dropWhile (\<lambda>c. c \<noteq> d) s) d"
  by (induction s) auto

lemma Split_no_delim: "d \<notin> set s \<Longrightarrow> Split s d = [s]"
  by (simp add: Split.simps)

lemma Split_once:
  assumes "Count s d = 1"
  shows "Split s d = [takeWhile (\<lambda>c. c \<noteq> d) s, tl (dropWhile (\<lambda>c. c \<noteq> d) s)]"
proof -
  from assms have "count_list s d \<noteq> 0" by (simp add: Count_def)
  then have mem: "d \<in> set s" by (simp add: count_list_0_iff)
  then have ne: "dropWhile (\<lambda>c. c \<noteq> d) s \<noteq> []" by simp
  from hd_dropWhile[OF ne] have "hd (dropWhile (\<lambda>c. c \<noteq> d) s) = d" by simp
  with ne obtain r where r: "dropWhile (\<lambda>c. c \<noteq> d) s = d # r"
    by (cases "dropWhile (\<lambda>c. c \<noteq> d) s") auto
  from assms have "count_list (d # r) d = 1"
    using count_list_takeWhile_dropWhile[of s d] by (simp add: Count_def r)
  then have "d \<notin> set r" by (simp add: count_list_0_iff)
  with mem r show ?thesis by (simp add: Split.simps[of s] Split_no_delim)
qed

lemma twoFields_eq:
  "twoFields s d =
     Some (if Count s d = 1
           then (takeWhile (\<lambda>c. c \<noteq> d) s, tl (dropWhile (\<lambda>c. c \<noteq> d) s), True)
           else (s, [], False))"
  by (simp add: twoFields_def Split_once index_def)

lemma leftOf_eq:
  "leftOf s d = Some (if Count s d = 1 then TrimSpace (takeWhile (\<lambda>c. c \<noteq> d) s) else [])"
  by (simp add: leftOf_def twoFields_eq)

lemma rightOf_eq:
  "rightOf s d = Some (if Count s d = 1 then TrimSpace (tl (dropWhile (\<lambda>c. c \<noteq> d) s)) else [])"
  by (simp add: rightOf_def twoFields_eq)

lemma Count_join: "d \<notin> set x \<Longrightarrow> d \<notin> set y \<Longrightarrow> Count (x @ d # y) d = 1"
  by (simp add: Count_def)

lemma Count_absent: "d \<notin> set s \<Longrightarrow> Count s d = 0"
  by (simp add: Count_def)

lemma takeWhile_join: "d \<notin> set x \<Longrightarrow> takeWhile (\<lambda>c. c \<noteq> d) (x @ d # y) = x"
  by (induction x) auto

lemma dropWhile_join: "d \<notin> set x \<Longrightarrow> dropWhile (\<lambda>c. c \<noteq> d) (x @ d # y) = d # y"
  by (induction x) auto

lemma leftOf_join: "d \<notin> set x \<Longrightarrow> d \<notin> set y \<Longrightarrow> leftOf (x @ d # y) d = Some (TrimSpace x)"
  by (simp add: leftOf_eq Count_join takeWhile_join)

lemma rightOf_join: "d \<notin> set x \<Longrightarrow> d \<notin> set y \<Longrightarrow> rightOf (x @ d # y) d = Some (TrimSpace y)"
  by (simp add: rightOf_eq Count_join dropWhile_join)

lemma leftOf_other: "Count s d \<noteq> 1 \<Longrightarrow> leftOf s d = Some []"
  by (simp add: leftOf_eq)

lemma rightOf_other: "Count s d \<noteq> 1 \<Longrightarrow> rightOf s d = Some []"
  by (simp add: rightOf_eq)

lemma TrimRight_id: "s = [] \<or> last s \<noteq> c \<Longrightarrow> TrimRight s c = s"
  by (cases s rule: rev_cases) (auto simp: TrimRight_def)

lemma TrimRight_absent: "c \<notin> set s \<Longrightarrow> TrimRight s c = s"
  by (rule TrimRight_id) (cases s rule: rev_cases, auto)

lemma Itoa_defaultPort: "Itoa defaultPort = ''3306''"
  by code_simp

section \<open>The shape of every parse result\<close>

text \<open>
  \<open>splitConnectionString\<close> runs through ten stages; once the value of each stage is known,
  so is the result. Each call of \<open>leftOf\<close> and \<open>rightOf\<close> returns, so every input goes
  through all the stages; the password returned is a trimmed string and the flag is computed
  from that very string.
\<close>

lemma split_stages:
  assumes "leftOf s CHR ''@'' = Some userPass"
    and "(if userPass \<noteq> [] then rightOf s CHR ''@'' else Some (TrimRight s CHR ''@''))
           = Some hostPortDatabase"
    and "rightOf hostPortDatabase CHR ''/'' = Some dbname0"
    and "(if dbname0 \<noteq> [] then do {
            l \<leftarrow> leftOf hostPortDatabase CHR ''/'';
            Some (l, dbname0)
          }
          else Some (TrimRight s CHR ''/'', defaultDatabaseName)) = Some (hostPort0, dbname1)"
    and "(if CHR ''@'' \<in> set hostPort0 then rightOf hostPort0 CHR ''@'' else Some hostPort0)
           = Some hostPort"
    and "rightOf userPass CHR '':'' = Some r"
    and "(if TrimSpace r \<noteq> [] then leftOf userPass CHR '':''
          else Some (TrimRight userPass CHR '':'')) = Some username'"
    and "rightOf hostPort CHR '':'' = Some port0"
    and "(if port0 \<noteq> [] then do {
            l \<leftarrow> leftOf hostPort CHR '':'';
            Some (l, port0)
          }
          else Some (TrimRight hostPort CHR '':'',
                     if TrimRight hostPort CHR '':'' \<noteq> [] then Itoa defaultPort else port0))
           = Some (host', port')"
    and "(if CHR ''?'' \<in> set dbname1 \<and> CHR ''='' \<in> set dbname1 then do {
            a \<leftarrow> rightOf dbname1 CHR ''?'';
            if a \<noteq> [] then do {
              l \<leftarrow> leftOf dbname1 CHR ''?'';
              Some (l, a)
            }
            else Some (dbname1, a)
          }
          else Some (dbname1, [])) = Some (dbname', args')"
  shows "splitConnectionString s =
     Some \<lparr>username = username', password = TrimSpace r, hasPassword = (TrimSpace r \<noteq> []),
           host = host', port = port', dbname = dbname', args = args'\<rparr>"
  unfolding splitConnectionString_def
  by (simp only: assms Let_def bind.bind_lunit prod.case)

lemma split_shape:
  "\<exists>u r h p d a. splitConnectionString s =
     Some \<lparr>username = u, password = TrimSpace r, hasPassword = (TrimSpace r \<noteq> []),
           host = h, port = p, dbname = d, args = a\<rparr>"
proof -
  obtain userPass where 1: "leftOf s CHR ''@'' = Some userPass"
    by (simp add: leftOf_eq)
  obtain hostPortDatabase where 2:
    "(if userPass \<noteq> [] then rightOf s CHR ''@'' else Some (TrimRight s CHR ''@''))
       = Some hostPortDatabase"
    by (cases "userPass = []") (simp_all add: rightOf_eq)
  obtain dbname0 where 3: "rightOf hostPortDatabase CHR ''/'' = Some dbname0"
    by (simp add: rightOf_eq)
  obtain hostPort0 dbname1 where 4:
    "(if dbname0 \<noteq> [] then do {
          l \<leftarrow> leftOf hostPortDatabase CHR ''/'';
          Some (l, dbname0)
        }
        else Some (TrimRight s CHR ''/'', defaultDatabaseName)) = Some (hostPort0, dbname1)"
    by (cases "dbname0 = []") (simp_all add: leftOf_eq)
  obtain hostPort where 5:
    "(if CHR ''@'' \<in> set hostPort0 then rightOf hostPort0 CHR ''@'' else Some hostPort0)
       = Some hostPort"
    by (cases "CHR ''@'' \<in> set hostPort0") (simp_all add: rightOf_eq)
  obtain r where 6: "rightOf userPass CHR '':'' = Some r"
    by (simp add: rightOf_eq)
  obtain username' where 7:
    "(if TrimSpace r \<noteq> [] then leftOf userPass CHR '':''
      else Some (TrimRight userPass CHR '':'')) = Some username'"
    by (cases "TrimSpace r = []") (simp_all add: leftOf_eq)
  obtain port0 where 8: "rightOf hostPort CHR '':'' = Some port0"
    by (simp add: rightOf_eq)
  obtain host' port' where 9:
    "(if port0 \<noteq> [] then do {
          l \<leftarrow> leftOf hostPort CHR '':'';
          Some (l, port0)
        }
      else Some (TrimRight hostPort CHR '':'',
                 if TrimRight hostPort CHR '':'' \<noteq> [] then Itoa defaultPort else port0))
       = Some (host', port')"
    by (cases "port0 = []") (simp_all add: leftOf_eq)
  obtain a where a: "rightOf dbname1 CHR ''?'' = Some a"
    by (simp add: rightOf_eq)
  obtain dbname' args' where 10:
    "(if CHR ''?'' \<in> set dbname1 \<and> CHR ''='' \<in> set dbname1 then do {
          a \<leftarrow> rightOf dbname1 CHR ''?'';
          if a \<noteq> [] then do {
            l \<leftarrow> leftOf dbname1 CHR ''?'';
            Some (l, a)
          }
          else Some (dbname1, a)
        }
        else Some (dbname1, [])) = Some (dbname', args')"
    by (cases "CHR ''?'' \<in> set dbname1 \<and> CHR ''='' \<in> set dbname1"; cases "a = []")
       (simp_all add: a leftOf_eq)
  show ?thesis
    using split_stages[OF 1 2 3 4 5 6 7 8 9 10] by blast
qed






section \<open>The output of \<open>buildConnectionString\<close>, block by block\<close>

lemma buildConnectionString_segments:
  "buildConnectionString c =
     schemeSegment c @ credentialsSegment c @ host c @ (if port c = [] then [] else '':'' @ port c)
       @ ''/'' @ dbname c @ argsSegment c"
  by (simp add: buildConnectionString_def Let_def schemeSegment_def credentialsSegment_def
      argsSegment_def)

section \<open>The fixed points of parsing after building\<close>





section \<open>The claims\<close>

subsection \<open>Claim C1\<close>




subsection \<open>Claim C2\<close>

text \<open>
  C2, as the code has it: \<open>splitConnectionString\<close> applied to \<^verbatim>\<open>user:@host:1234/db\<close> returns
  the user name \<^verbatim>\<open>user\<close>, an empty password, port \<^verbatim>\<open>1234\<close> and the flag \<open>hasPassword\<close>
  false: the flag is computed from the password, so a trailing colon in the credentials does
  not set it, and the result is the one of \<^verbatim>\<open>user@host:1234/db\<close>.
\<close>

theorem split_empty_password:
  "splitConnectionString ''user:@host:1234/db'' =
     Some \<lparr>username = ''user'', password = [], hasPassword = False,
           host = ''host'', port = ''1234'', dbname = ''db'', args = []\<rparr>
   \<and> splitConnectionString ''user:@host:1234/db'' = splitConnectionString ''user@host:1234/db''"
  by code_simp

text \<open>C2 as stated fails: on \<^verbatim>\<open>user:@host:1234/db\<close> the flag \<open>hasPassword\<close> is false.\<close>

theorem split_empty_password_flag_unset:
  "map_option hasPassword (splitConnectionString ''user:@host:1234/db'') = Some False"
  by code_simp

subsection \<open>Claim C3\<close>

text \<open>
  C3, as the code has it: for every input \<^verbatim>\<open>user:pass@host:port/db?args\<close> whose six
  components are well formed (non-empty, without surrounding white space, without the
  delimiters of the grammar) and whose \<^verbatim>\<open>args\<close> contains an \<^verbatim>\<open>=\<close>, \<open>splitConnectionString\<close>
  returns exactly the six components, and \<open>buildConnectionString\<close> writes them back at
  their places after the scheme \<^verbatim>\<open>postgres://\<close>: the rebuilt string is the scheme followed by
  the input.
\<close>

theorem split_build_well_formed:
  assumes u: "component u" and p: "component p" and h: "component h" and n: "component n"
    and d: "component d" and a: "component a" and eq: "CHR ''='' \<in> set a"
  shows "splitConnectionString (u @ '':'' @ p @ ''@'' @ h @ '':'' @ n @ ''/'' @ d @ ''?'' @ a)
           = Some \<lparr>username = u, password = p, hasPassword = True,
                   host = h, port = n, dbname = d, args = a\<rparr>
       \<and> rebuildConnectionString (u @ '':'' @ p @ ''@'' @ h @ '':'' @ n @ ''/'' @ d @ ''?'' @ a)
           = Some (''postgres://'' @ u @ '':'' @ p @ ''@'' @ h @ '':'' @ n @ ''/'' @ d @ ''?'' @ a, d)"
proof -
  define U where "U = u @ CHR '':'' # p"
  define H where "H = h @ CHR '':'' # n"
  define D where "D = d @ CHR ''?'' # a"
  define R where "R = H @ CHR ''/'' # D"
  define s where "s = U @ CHR ''@'' # R"
  have s: "u @ '':'' @ p @ ''@'' @ h @ '':'' @ n @ ''/'' @ d @ ''?'' @ a = s"
    by (simp add: s_def U_def H_def D_def R_def)
  note c = component_def delimiterFree_def
  have U: "U \<noteq> []" "TrimSpace U = U" "CHR ''@'' \<notin> set U"
    using u p by (simp_all add: U_def c TrimSpace_join plainByte_delims)
  have H: "H \<noteq> []" "TrimSpace H = H" "CHR ''@'' \<notin> set H" "CHR ''/'' \<notin> set H"
    using h n by (simp_all add: H_def c TrimSpace_join plainByte_delims)
  have D: "D \<noteq> []" "TrimSpace D = D" "CHR ''@'' \<notin> set D" "CHR ''/'' \<notin> set D"
    "CHR ''?'' \<in> set D" "CHR ''='' \<in> set D"
    using d a eq by (simp_all add: D_def c TrimSpace_join plainByte_delims)
  have R: "TrimSpace R = R" "CHR ''@'' \<notin> set R"
    using H D by (simp_all add: R_def TrimSpace_join plainByte_delims)
  have a1: "leftOf s CHR ''@'' = Some U"
    using U R by (simp add: s_def leftOf_join)
  have a2: "(if U \<noteq> [] then rightOf s CHR ''@'' else Some (TrimRight s CHR ''@'')) = Some R"
    using U R by (simp add: s_def rightOf_join)
  have a3: "rightOf R CHR ''/'' = Some D"
    using H D by (simp add: R_def rightOf_join)
  have a4: "(if D \<noteq> [] then do {
            l \<leftarrow> leftOf R CHR ''/'';
            Some (l, D)
          }
          else Some (TrimRight s CHR ''/'', defaultDatabaseName)) = Some (H, D)"
    using H D by (simp add: R_def leftOf_join)
  have a5: "(if CHR ''@'' \<in> set H then rightOf H CHR ''@'' else Some H) = Some H"
    using H by simp
  have a6: "rightOf U CHR '':'' = Some p"
    using u p by (simp add: U_def c rightOf_join)
  have a7: "(if TrimSpace p \<noteq> [] then leftOf U CHR '':''
          else Some (TrimRight U CHR '':'')) = Some u"
    using u p by (simp add: U_def c leftOf_join)
  have a8: "rightOf H CHR '':'' = Some n"
    using h n by (simp add: H_def c rightOf_join)
  have a9: "(if n \<noteq> [] then do {
            l \<leftarrow> leftOf H CHR '':'';
            Some (l, n)
          }
          else Some (TrimRight H CHR '':'',
                     if TrimRight H CHR '':'' \<noteq> [] then Itoa defaultPort else n))
           = Some (h, n)"
    using h n by (simp add: H_def c leftOf_join)
  have a10: "(if CHR ''?'' \<in> set D \<and> CHR ''='' \<in> set D then do {
            x \<leftarrow> rightOf D CHR ''?'';
            if x \<noteq> [] then do {
              l \<leftarrow> leftOf D CHR ''?'';
              Some (l, x)
            }
            else Some (D, x)
          }
          else Some (D, [])) = Some (d, a)"
    using d a D(5,6) by (simp add: D_def c leftOf_join rightOf_join)
  have split: "splitConnectionString s =
     Some \<lparr>username = u, password = p, hasPassword = True,
           host = h, port = n, dbname = d, args = a\<rparr>"
    using split_stages[OF a1 a2 a3 a4 a5 a6 a7 a8 a9 a10] p by (simp add: c)
  have "\<not> prefix ''postgres://'' u"
  proof
    assume "prefix ''postgres://'' u"
    then have "set ''postgres://'' \<subseteq> set u" by (rule set_mono_prefix)
    with u show False by (simp add: c)
  qed
  then have "buildConnectionString \<lparr>username = u, password = p, hasPassword = True,
           host = h, port = n, dbname = d, args = a\<rparr>
     = ''postgres://'' @ s"
    using u n a
    by (simp add: buildConnectionString_segments schemeSegment_def credentialsSegment_def
        argsSegment_def c s[symmetric])
  with split show ?thesis
    unfolding s by (simp add: rebuildConnectionString_def s[symmetric])
qed

theorem split_build_well_formed_witness:
  "component ''u'' \<and> component ''p'' \<and> component ''h'' \<and> component ''1''
   \<and> component ''d'' \<and> component ''x=y'' \<and> CHR ''='' \<in> set ''x=y''
   \<and> splitConnectionString ''u:p@h:1/d?x=y''
         = Some \<lparr>username = ''u'', password = ''p'', hasPassword = True,
                 host = ''h'', port = ''1'', dbname = ''d'', args = ''x=y''\<rparr>
   \<and> rebuildConnectionString ''u:p@h:1/d?x=y'' = Some (''postgres://u:p@h:1/d?x=y'', ''d'')"
proof -
  have c: "component ''u''" "component ''p''" "component ''h''" "component ''1''"
    "component ''d''" "component ''x=y''"
    by code_simp+
  have e: "CHR ''='' \<in> set ''x=y''" by simp
  from split_build_well_formed[OF c e] c e show ?thesis by simp
qed

text \<open>
  C3 as stated fails: in \<^verbatim>\<open>u:p@h:1/d?x\<close> every component is non-empty and free of
  delimiters, but \<^verbatim>\<open>x\<close> has no \<^verbatim>\<open>=\<close>, so it stays in the database name and the rebuilt
  string gets the default argument appended after it.
\<close>

theorem split_build_args_without_equals:
  "map_option buildConnectionString (splitConnectionString ''u:p@h:1/d?x'')
     = Some ''postgres://u:p@h:1/d?x?sslmode=disable''"
  by code_simp

subsection \<open>Claim C4\<close>

text \<open>
  C4, as the code has it: for a bare string with neither \<^verbatim>\<open>@\<close> nor \<^verbatim>\<open>/\<close>,
  \<open>splitConnectionString\<close> returns the fixed default database name (the bare string is not
  kept as the database name), no credentials and no arguments; the host and the port are
  taken from the bare string itself. If the string has exactly one \<^verbatim>\<open>:\<close> and the part right
  of it is not blank, the host is the trimmed part left of the \<^verbatim>\<open>:\<close> and the port the trimmed
  part right of it. Otherwise the host is the string without its trailing colons, and the
  port is the default port when that host is non-empty and empty when it is empty. So a
  string without \<^verbatim>\<open>:\<close> is returned whole as the host.
\<close>

theorem split_bare_string:
  assumes "CHR ''@'' \<notin> set s" and "CHR ''/'' \<notin> set s"
  shows "\<exists>c. splitConnectionString s = Some c
           \<and> username c = [] \<and> password c = [] \<and> \<not> hasPassword c
           \<and> dbname c = defaultDatabaseName \<and> args c = []
           \<and> (if Count s CHR '':'' = 1 \<and> TrimSpace (tl (dropWhile (\<lambda>x. x \<noteq> CHR '':'') s)) \<noteq> []
                then host c = TrimSpace (takeWhile (\<lambda>x. x \<noteq> CHR '':'') s)
                   \<and> port c = TrimSpace (tl (dropWhile (\<lambda>x. x \<noteq> CHR '':'') s))
                else host c = TrimRight s CHR '':''
                   \<and> port c = (if TrimRight s CHR '':'' = [] then [] else Itoa defaultPort))
           \<and> (CHR '':'' \<notin> set s \<longrightarrow>
                host c = s \<and> port c = (if s = [] then [] else Itoa defaultPort))"
proof -
  define port0 where
    "port0 = (if Count s CHR '':'' = 1 then TrimSpace (tl (dropWhile (\<lambda>x. x \<noteq> CHR '':'') s)) else [])"
  define host' where
    "host' = (if port0 \<noteq> [] then TrimSpace (takeWhile (\<lambda>x. x \<noteq> CHR '':'') s)
              else TrimRight s CHR '':'')"
  define port' where
    "port' = (if port0 \<noteq> [] then port0
              else if TrimRight s CHR '':'' \<noteq> [] then Itoa defaultPort else [])"
  have a1: "leftOf s CHR ''@'' = Some []"
    using assms(1) by (simp add: leftOf_other Count_absent)
  have a2: "(if [] \<noteq> [] then rightOf s CHR ''@'' else Some (TrimRight s CHR ''@'')) = Some s"
    using assms(1) by (simp add: TrimRight_absent)
  have a3: "rightOf s CHR ''/'' = Some []"
    using assms(2) by (simp add: rightOf_other Count_absent)
  have a4: "(if [] \<noteq> [] then do {
            l \<leftarrow> leftOf s CHR ''/'';
            Some (l, [])
          }
          else Some (TrimRight s CHR ''/'', defaultDatabaseName)) = Some (s, defaultDatabaseName)"
    using assms(2) by (simp add: TrimRight_absent)
  have a5: "(if CHR ''@'' \<in> set s then rightOf s CHR ''@'' else Some s) = Some s"
    using assms(1) by simp
  have a6: "rightOf [] CHR '':'' = Some []"
    by (simp add: rightOf_other Count_absent)
  have a7: "(if TrimSpace [] \<noteq> [] then leftOf [] CHR '':''
          else Some (TrimRight [] CHR '':'')) = Some []"
    by (simp add: TrimSpace_Nil TrimRight_absent)
  have a8: "rightOf s CHR '':'' = Some port0"
    by (simp add: rightOf_eq port0_def)
  have a9:
    "(if port0 \<noteq> [] then do {
          l \<leftarrow> leftOf s CHR '':'';
          Some (l, port0)
        }
      else Some (TrimRight s CHR '':'',
                 if TrimRight s CHR '':'' \<noteq> [] then Itoa defaultPort else port0))
       = Some (host', port')"
  proof (cases "port0 = []")
    case True
    then show ?thesis by (simp add: host'_def port'_def)
  next
    case False
    then have "Count s CHR '':'' = 1" by (simp add: port0_def split: if_splits)
    with False show ?thesis by (simp add: host'_def port'_def leftOf_eq)
  qed
  have a10: "(if CHR ''?'' \<in> set defaultDatabaseName \<and> CHR ''='' \<in> set defaultDatabaseName then do {
            a \<leftarrow> rightOf defaultDatabaseName CHR ''?'';
            if a \<noteq> [] then do {
              l \<leftarrow> leftOf defaultDatabaseName CHR ''?'';
              Some (l, a)
            }
            else Some (defaultDatabaseName, a)
          }
          else Some (defaultDatabaseName, [])) = Some (defaultDatabaseName, [])"
    by (simp add: defaultDatabaseName_def)
  have split: "splitConnectionString s =
     Some \<lparr>username = [], password = [], hasPassword = False,
           host = host', port = port', dbname = defaultDatabaseName, args = []\<rparr>"
    using split_stages[OF a1 a2 a3 a4 a5 a6 a7 a8 a9 a10] by (simp add: TrimSpace_Nil)
  have general:
    "if Count s CHR '':'' = 1 \<and> TrimSpace (tl (dropWhile (\<lambda>x. x \<noteq> CHR '':'') s)) \<noteq> []
     then host' = TrimSpace (takeWhile (\<lambda>x. x \<noteq> CHR '':'') s)
        \<and> port' = TrimSpace (tl (dropWhile (\<lambda>x. x \<noteq> CHR '':'') s))
     else host' = TrimRight s CHR '':''
        \<and> port' = (if TrimRight s CHR '':'' = [] then [] else Itoa defaultPort)"
    by (simp add: host'_def port'_def port0_def)
  have plain: "host' = s \<and> port' = (if s = [] then [] else Itoa defaultPort)"
    if "CHR '':'' \<notin> set s"
  proof -
    from that have "Count s CHR '':'' = 0" by (rule Count_absent)
    moreover have "TrimRight s CHR '':'' = s"
      using that by (rule TrimRight_absent)
    ultimately show ?thesis by (simp add: host'_def port'_def port0_def)
  qed
  from split general plain show ?thesis by simp
qed

theorem split_bare_string_witness:
  "splitConnectionString ''db'' =
     Some \<lparr>username = [], password = [], hasPassword = False,
           host = ''db'', port = ''3306'', dbname = ''test'', args = []\<rparr>
   \<and> splitConnectionString '':5432'' =
     Some \<lparr>username = [], password = [], hasPassword = False,
           host = [], port = ''5432'', dbname = ''test'', args = []\<rparr>
   \<and> splitConnectionString '':'' =
     Some \<lparr>username = [], password = [], hasPassword = False,
           host = [], port = [], dbname = ''test'', args = []\<rparr>"
proof -
  have t: "TrimSpace ''5432'' = ''5432''" "TrimRight '':'' CHR '':'' = []"
    "TrimRight ''db'' CHR '':'' = ''db''"
    by code_simp+
  show ?thesis
    using split_bare_string[of "''db''"] split_bare_string[of "'':5432''"]
      split_bare_string[of "'':''"]
    by (auto simp: Itoa_defaultPort defaultDatabaseName_def Count_def TrimSpace_Nil t)
qed

text \<open>
  C4 as stated fails: on \<^verbatim>\<open>db\<close> the host returned is \<^verbatim>\<open>db\<close>, not the empty string.
\<close>

theorem split_bare_string_host:
  "map_option host (splitConnectionString ''db'') = Some ''db''"
  by code_simp

subsection \<open>Claim C5\<close>

text \<open>
  C5, as the code has it: when the host is empty, \<open>buildConnectionString\<close> writes no host
  between the credentials block and the database part, but it still writes the colon and the
  port whenever the port is non-empty; the segment is empty only when the port is empty too.
\<close>

theorem build_empty_host:
  "host c = [] \<Longrightarrow>
   buildConnectionString c =
     schemeSegment c @ credentialsSegment c @ (if port c = [] then [] else '':'' @ port c)
       @ ''/'' @ dbname c @ argsSegment c"
  by (simp add: buildConnectionString_segments)

theorem build_empty_host_witness:
  "buildConnectionString \<lparr>username = ''u'', password = ''p'', hasPassword = True,
      host = [], port = ''5432'', dbname = ''db'', args = []\<rparr>
    = ''postgres://u:p@:5432/db?sslmode=disable''
   \<and> buildConnectionString \<lparr>username = ''u'', password = ''p'', hasPassword = True,
      host = [], port = [], dbname = ''db'', args = []\<rparr>
    = ''postgres://u:p@/db?sslmode=disable''"
  using build_empty_host[of "\<lparr>username = ''u'', password = ''p'', hasPassword = True,
      host = [], port = ''5432'', dbname = ''db'', args = []\<rparr>"]
    build_empty_host[of "\<lparr>username = ''u'', password = ''p'', hasPassword = True,
      host = [], port = [], dbname = ''db'', args = []\<rparr>"]
  by (simp add: schemeSegment_def credentialsSegment_def argsSegment_def)

text \<open>
  C5 as stated fails: with an empty host and the port \<^verbatim>\<open>5432\<close> the output has \<^verbatim>\<open>:5432\<close>
  between the (empty) credentials block and \<^verbatim>\<open>/db\<close>.
\<close>

theorem build_empty_host_keeps_port:
  "buildConnectionString \<lparr>username = [], password = [], hasPassword = False,
      host = [], port = ''5432'', dbname = ''db'', args = []\<rparr>
    = ''postgres://:5432/db?sslmode=disable''"
  by code_simp

subsection \<open>Claim C6\<close>

text \<open>
  C6: \<open>buildConnectionString\<close> is only called on results of \<open>splitConnectionString\<close>, whose
  flag \<open>hasPassword\<close> says whether the password is non-empty. For every such connection the
  credentials block written between the scheme and the host is one of \<^verbatim>\<open>user:pass@\<close>,
  \<^verbatim>\<open>user@\<close>, \<^verbatim>\<open>:pass@\<close> or nothing; it is written exactly when the user name or the password
  is non-empty, and when written it ends in \<^verbatim>\<open>@\<close>.
\<close>

theorem build_credentials_forms:
  assumes "hasPassword c = (password c \<noteq> [])"
  shows "\<exists>blk. buildConnectionString c =
       schemeSegment c @ blk @ host c @ (if port c = [] then [] else '':'' @ port c)
         @ ''/'' @ dbname c @ argsSegment c
     \<and> (username c \<noteq> [] \<and> password c \<noteq> [] \<longrightarrow> blk = username c @ '':'' @ password c @ ''@'')
     \<and> (username c \<noteq> [] \<and> password c = [] \<longrightarrow> blk = username c @ ''@'')
     \<and> (username c = [] \<and> password c \<noteq> [] \<longrightarrow> blk = '':'' @ password c @ ''@'')
     \<and> (username c = [] \<and> password c = [] \<longrightarrow> blk = [])
     \<and> (blk \<noteq> [] \<longleftrightarrow> username c \<noteq> [] \<or> password c \<noteq> [])
     \<and> (blk \<noteq> [] \<longrightarrow> last blk = CHR ''@'')"
proof (intro exI conjI)
  show "buildConnectionString c =
       schemeSegment c @ credentialsSegment c @ host c
         @ (if port c = [] then [] else '':'' @ port c) @ ''/'' @ dbname c @ argsSegment c"
    by (rule buildConnectionString_segments)
  show "username c \<noteq> [] \<and> password c \<noteq> []
      \<longrightarrow> credentialsSegment c = username c @ '':'' @ password c @ ''@''"
    using assms by (simp add: credentialsSegment_def)
  show "username c \<noteq> [] \<and> password c = [] \<longrightarrow> credentialsSegment c = username c @ ''@''"
    using assms by (simp add: credentialsSegment_def)
  show "username c = [] \<and> password c \<noteq> [] \<longrightarrow> credentialsSegment c = '':'' @ password c @ ''@''"
    using assms by (simp add: credentialsSegment_def)
  show "username c = [] \<and> password c = [] \<longrightarrow> credentialsSegment c = []"
    using assms by (simp add: credentialsSegment_def)
  show "credentialsSegment c \<noteq> [] \<longleftrightarrow> username c \<noteq> [] \<or> password c \<noteq> []"
    using assms by (simp add: credentialsSegment_def)
  show "credentialsSegment c \<noteq> [] \<longrightarrow> last (credentialsSegment c) = CHR ''@''"
    by (simp add: credentialsSegment_def)
qed

theorem build_credentials_forms_witness:
  "buildConnectionString \<lparr>username = ''u'', password = ''p'', hasPassword = True,
      host = ''h'', port = ''1'', dbname = ''d'', args = []\<rparr>
     = ''postgres://'' @ ''u:p@'' @ ''h:1/d?sslmode=disable''
   \<and> buildConnectionString \<lparr>username = [], password = [], hasPassword = False,
      host = ''h'', port = ''1'', dbname = ''d'', args = []\<rparr>
     = ''postgres://'' @ [] @ ''h:1/d?sslmode=disable''"
  using build_credentials_forms[of "\<lparr>username = ''u'', password = ''p'', hasPassword = True,
      host = ''h'', port = ''1'', dbname = ''d'', args = []\<rparr>"]
    build_credentials_forms[of "\<lparr>username = [], password = [], hasPassword = False,
      host = ''h'', port = ''1'', dbname = ''d'', args = []\<rparr>"]
  by (auto simp: schemeSegment_def argsSegment_def)

subsection \<open>Claim C7\<close>

text \<open>
  C7 at the input \<^verbatim>\<open>host/?a=b\<close>: the database segment \<^verbatim>\<open>?a=b\<close> is non-empty, so the
  default name is not taken; the arguments are then split off and the name left of the
  question mark is empty. Both \<open>splitConnectionString\<close> and \<open>rebuildConnectionString\<close>
  return an empty database name.
\<close>

theorem split_empty_dbname:
  "splitConnectionString ''host/?a=b'' =
     Some \<lparr>username = [], password = [], hasPassword = False,
           host = ''host'', port = ''3306'', dbname = [], args = ''a=b''\<rparr>
   \<and> rebuildConnectionString ''host/?a=b'' = Some (''postgres://host:3306/?a=b'', [])"
  by code_simp

subsection \<open>Claim C8\<close>

text \<open>
  C8: \<open>splitConnectionString\<close> is total. For every input string, malformed or partial ones
  included, it returns a fully populated result and never fails: no index into the slice of
  fields is ever out of range.
\<close>

theorem splitConnectionString_total: "\<exists>c. splitConnectionString s = Some c"
  using split_shape[of s] by blast

subsection \<open>Claim C9\<close>

text \<open>
  C9: for every connection whose \<open>args\<close> field is empty, the string that
  \<open>buildConnectionString\<close> returns ends with \<^verbatim>\<open>?sslmode=disable\<close>.
\<close>

theorem build_default_sslmode:
  "args c = [] \<Longrightarrow> suffix ''?sslmode=disable'' (buildConnectionString c)"
  by (simp add: buildConnectionString_segments argsSegment_def suffix_def)

theorem build_default_sslmode_witness:
  "suffix ''?sslmode=disable''
     (buildConnectionString \<lparr>username = ''u'', password = ''p'', hasPassword = True,
        host = ''h'', port = ''5432'', dbname = ''db'', args = []\<rparr>)"
  using build_default_sslmode[of "\<lparr>username = ''u'', password = ''p'', hasPassword = True,
      host = ''h'', port = ''5432'', dbname = ''db'', args = []\<rparr>"]
  by simp

subsection \<open>Claim C10\<close>

text \<open>
  C10: for every input string, the \<open>hasPassword\<close> flag that \<open>splitConnectionString\<close>
  returns is true exactly when the returned password is non-empty.
\<close>

theorem splitConnectionString_hasPassword:
  "\<exists>c. splitConnectionString s = Some c \<and> hasPassword c = (password c \<noteq> [])"
  using split_shape[of s] by force

end
